theory Spec2Isabelle
  imports Complex_Main "HOL-Library.Monad_Syntax"
begin

section \<open>Data model (types.ts)\<close>

text \<open>
  The TypeScript type \<open>number\<close> is modelled over the reals: a configuration field is a
  \<open>real\<close> (the solver is only specified for finite inputs), and a field of a result is
  either a real value or the sentinel \<open>NaN\<close> that the solver writes on its invalid branch.
  Rounding, infinities and signed zeros of IEEE doubles are not part of the model.
\<close>

datatype number = NaN | Num real

record LinkageConfig =
  r1 :: real
  r2 :: real
  r3 :: real
  r4 :: real
  r6 :: real
  beta :: real
  theta2 :: real

text \<open>The parameter type \<open>-1 | 1\<close> of the solver, and the label type \<open>'open' | 'crossed'\<close>.\<close>

datatype AssemblyMode = Plus1 | Minus1

datatype ModeLabel = Open | Crossed

record LinkageSolution =
  Ax :: number
  Ay :: number
  Bx :: number
  By :: number
  Cx :: number
  Cy :: number
  theta3 :: number
  theta4 :: number
  isValid :: bool
  mode :: ModeLabel

text \<open>
  The elements pushed by \<open>computeTrajectory\<close>; the fields carry the prefix \<open>tp_\<close> because
  \<open>theta2\<close>, \<open>theta3\<close>, \<open>theta4\<close>, \<open>Cx\<close> and \<open>Cy\<close> are already fields of the records above.
\<close>

record TrajectoryPoint =
  tp_theta2 :: number
  tp_theta3 :: number
  tp_theta4 :: number
  tp_Cx :: number
  tp_Cy :: number

type_synonym Point = "real \<times> real"

section \<open>The position solver (utils/math.ts)\<close>

definition toRad :: "real \<Rightarrow> real" where
  "toRad deg = (deg * pi) / 180"

definition toDeg :: "real \<Rightarrow> real" where
  "toDeg rad = (rad * 180) / pi"

text \<open>
  \<open>Math.atan2(y, x)\<close> of the JavaScript library, over the reals: the angle of the point
  \<open>(x, y)\<close>, with the value \<open>0\<close> at the origin as for \<open>atan2(+0, +0)\<close>.
\<close>

definition atan2 :: "real \<Rightarrow> real \<Rightarrow> real" where
  "atan2 y x =
     (if 0 < x then arctan (y / x)
      else if x < 0 \<and> 0 \<le> y then arctan (y / x) + pi
      else if x < 0 \<and> y < 0 then arctan (y / x) - pi
      else if 0 < y then pi / 2
      else if y < 0 then - (pi / 2)
      else 0)"

text \<open>
  Each local constant of \<open>solveLinkage\<close> is a function of the configuration (and of the
  assembly mode where the source uses it), named after the constant with the suffix \<open>_of\<close>.
\<close>

definition theta2Rad_of :: "LinkageConfig \<Rightarrow> real" where
  "theta2Rad_of config = toRad (theta2 config)"

definition betaRad_of :: "LinkageConfig \<Rightarrow> real" where
  "betaRad_of config = toRad (beta config)"

definition B_star_of :: "LinkageConfig \<Rightarrow> Point" where
  "B_star_of config = (r1 config, 0)"

definition Ax_of :: "LinkageConfig \<Rightarrow> real" where
  "Ax_of config = r2 config * cos (theta2Rad_of config)"

definition Ay_of :: "LinkageConfig \<Rightarrow> real" where
  "Ay_of config = r2 config * sin (theta2Rad_of config)"

definition d2_of :: "LinkageConfig \<Rightarrow> real" where
  "d2_of config =
     (Ax_of config - fst (B_star_of config))\<^sup>2 + (Ay_of config - snd (B_star_of config))\<^sup>2"

definition d_of :: "LinkageConfig \<Rightarrow> real" where
  "d_of config = sqrt (d2_of config)"

definition a_of :: "LinkageConfig \<Rightarrow> real" where
  "a_of config = ((r3 config)\<^sup>2 - (r4 config)\<^sup>2 + d2_of config) / (2 * d_of config)"

definition h_of :: "LinkageConfig \<Rightarrow> real" where
  "h_of config = sqrt (max 0 ((r3 config)\<^sup>2 - (a_of config)\<^sup>2))"

definition x2_of :: "LinkageConfig \<Rightarrow> real" where
  "x2_of config =
     Ax_of config + (a_of config * (fst (B_star_of config) - Ax_of config)) / d_of config"

definition y2_of :: "LinkageConfig \<Rightarrow> real" where
  "y2_of config =
     Ay_of config + (a_of config * (snd (B_star_of config) - Ay_of config)) / d_of config"

definition x3_1_of :: "LinkageConfig \<Rightarrow> real" where
  "x3_1_of config =
     x2_of config + (h_of config * (snd (B_star_of config) - Ay_of config)) / d_of config"

definition y3_1_of :: "LinkageConfig \<Rightarrow> real" where
  "y3_1_of config =
     y2_of config - (h_of config * (fst (B_star_of config) - Ax_of config)) / d_of config"

definition x3_2_of :: "LinkageConfig \<Rightarrow> real" where
  "x3_2_of config =
     x2_of config - (h_of config * (snd (B_star_of config) - Ay_of config)) / d_of config"

definition y3_2_of :: "LinkageConfig \<Rightarrow> real" where
  "y3_2_of config =
     y2_of config + (h_of config * (fst (B_star_of config) - Ax_of config)) / d_of config"

definition Bx_of :: "LinkageConfig \<Rightarrow> AssemblyMode \<Rightarrow> real" where
  "Bx_of config assemblyMode = (if assemblyMode = Plus1 then x3_1_of config else x3_2_of config)"

definition By_of :: "LinkageConfig \<Rightarrow> AssemblyMode \<Rightarrow> real" where
  "By_of config assemblyMode = (if assemblyMode = Plus1 then y3_1_of config else y3_2_of config)"

definition theta3Rad_of :: "LinkageConfig \<Rightarrow> AssemblyMode \<Rightarrow> real" where
  "theta3Rad_of config assemblyMode =
     atan2 (By_of config assemblyMode - Ay_of config) (Bx_of config assemblyMode - Ax_of config)"

definition theta4Rad_of :: "LinkageConfig \<Rightarrow> AssemblyMode \<Rightarrow> real" where
  "theta4Rad_of config assemblyMode =
     atan2 (By_of config assemblyMode - snd (B_star_of config))
           (Bx_of config assemblyMode - fst (B_star_of config))"

definition angleAC_of :: "LinkageConfig \<Rightarrow> AssemblyMode \<Rightarrow> real" where
  "angleAC_of config assemblyMode = theta3Rad_of config assemblyMode + betaRad_of config"

definition solveLinkage :: "LinkageConfig \<Rightarrow> AssemblyMode \<Rightarrow> LinkageSolution" where
  "solveLinkage config assemblyMode =
     (if d_of config > r3 config + r4 config \<or> d_of config < \<bar>r3 config - r4 config\<bar>
          \<or> d_of config = 0
      then \<lparr>Ax = Num (Ax_of config), Ay = Num (Ay_of config),
            Bx = NaN, By = NaN, Cx = NaN, Cy = NaN, theta3 = NaN, theta4 = NaN,
            isValid = False,
            mode = (if assemblyMode = Plus1 then Open else Crossed)\<rparr>
      else \<lparr>Ax = Num (Ax_of config), Ay = Num (Ay_of config),
            Bx = Num (Bx_of config assemblyMode), By = Num (By_of config assemblyMode),
            Cx = Num (Ax_of config + r6 config * cos (angleAC_of config assemblyMode)),
            Cy = Num (Ay_of config + r6 config * sin (angleAC_of config assemblyMode)),
            theta3 = Num (toDeg (theta3Rad_of config assemblyMode)),
            theta4 = Num (toDeg (theta4Rad_of config assemblyMode)),
            isValid = True,
            mode = (if assemblyMode = Plus1 then Open else Crossed)\<rparr>)"

section \<open>The solver with checked arithmetic\<close>

text \<open>
  HOL's \<open>x / 0\<close> is \<open>0\<close> and its \<open>sqrt\<close> of a negative number is a negative number, where
  JavaScript yields an infinity or the not-a-number value. The second model of the solver
  follows the source line by line and records, as \<open>None\<close>, every division by zero and every
  square root of a negative argument, so that the absence of both is a statement.
\<close>

definition div_chk :: "real \<Rightarrow> real \<Rightarrow> real option" where
  "div_chk x y = (if y = 0 then None else Some (x / y))"

definition sqrt_chk :: "real \<Rightarrow> real option" where
  "sqrt_chk x = (if x < 0 then None else Some (sqrt x))"

definition toRad_chk :: "real \<Rightarrow> real option" where
  "toRad_chk deg = div_chk (deg * pi) 180"

definition toDeg_chk :: "real \<Rightarrow> real option" where
  "toDeg_chk rad = div_chk (rad * 180) pi"

definition solveLinkage_chk :: "LinkageConfig \<Rightarrow> AssemblyMode \<Rightarrow> LinkageSolution option" where
  "solveLinkage_chk config assemblyMode = do {
     theta2Rad \<leftarrow> toRad_chk (theta2 config);
     betaRad \<leftarrow> toRad_chk (beta config);
     let B_star = (r1 config, 0::real);
     let A_x = r2 config * cos theta2Rad;
     let A_y = r2 config * sin theta2Rad;
     let d2 = (A_x - fst B_star)\<^sup>2 + (A_y - snd B_star)\<^sup>2;
     d \<leftarrow> sqrt_chk d2;
     if d > r3 config + r4 config \<or> d < \<bar>r3 config - r4 config\<bar> \<or> d = 0
     then Some \<lparr>Ax = Num A_x, Ay = Num A_y,
                 Bx = NaN, By = NaN, Cx = NaN, Cy = NaN, theta3 = NaN, theta4 = NaN,
                 isValid = False,
                 mode = (if assemblyMode = Plus1 then Open else Crossed)\<rparr>
     else do {
       a \<leftarrow> div_chk ((r3 config)\<^sup>2 - (r4 config)\<^sup>2 + d2) (2 * d);
       h \<leftarrow> sqrt_chk (max 0 ((r3 config)\<^sup>2 - a\<^sup>2));
       qx2 \<leftarrow> div_chk (a * (fst B_star - A_x)) d;
       qy2 \<leftarrow> div_chk (a * (snd B_star - A_y)) d;
       let x2 = A_x + qx2;
       let y2 = A_y + qy2;
       qx3 \<leftarrow> div_chk (h * (snd B_star - A_y)) d;
       qy3 \<leftarrow> div_chk (h * (fst B_star - A_x)) d;
       let x3_1 = x2 + qx3;
       let y3_1 = y2 - qy3;
       let x3_2 = x2 - qx3;
       let y3_2 = y2 + qy3;
       let B_x = (if assemblyMode = Plus1 then x3_1 else x3_2);
       let B_y = (if assemblyMode = Plus1 then y3_1 else y3_2);
       let theta3Rad = atan2 (B_y - A_y) (B_x - A_x);
       t3 \<leftarrow> toDeg_chk theta3Rad;
       let theta4Rad = atan2 (B_y - snd B_star) (B_x - fst B_star);
       t4 \<leftarrow> toDeg_chk theta4Rad;
       let angleAC = theta3Rad + betaRad;
       Some \<lparr>Ax = Num A_x, Ay = Num A_y, Bx = Num B_x, By = Num B_y,
             Cx = Num (A_x + r6 config * cos angleAC),
             Cy = Num (A_y + r6 config * sin angleAC),
             theta3 = Num t3, theta4 = Num t4,
             isValid = True,
             mode = (if assemblyMode = Plus1 then Open else Crossed)\<rparr>
     }
   }"

section \<open>The trajectory sampler (utils/math.ts)\<close>

text \<open>
  The \<open>for\<close> loop of \<open>computeTrajectory\<close> as a recursive function of the loop variable
  \<open>t2\<close> and of the array \<open>data\<close>. The state carries one ghost component, \<open>calls\<close>: the
  arguments handed to \<open>solveLinkage\<close>, in call order. The program returns \<open>data\<close> only.
\<close>

function computeTrajectory_loop ::
  "LinkageConfig \<Rightarrow> AssemblyMode \<Rightarrow> real \<Rightarrow> LinkageConfig list \<times> TrajectoryPoint list
     \<Rightarrow> LinkageConfig list \<times> TrajectoryPoint list" where
  "computeTrajectory_loop config assemblyMode t2 (calls, data) =
     (if t2 \<le> 360
      then let arg = config\<lparr>theta2 := t2\<rparr>;
               sol = solveLinkage arg assemblyMode
           in computeTrajectory_loop config assemblyMode (t2 + 2)
                (calls @ [arg],
                 if isValid sol
                 then data @ [\<lparr>tp_theta2 = Num t2, tp_theta3 = theta3 sol, tp_theta4 = theta4 sol,
                               tp_Cx = Cx sol, tp_Cy = Cy sol\<rparr>]
                 else data)
      else (calls, data))"
  by pat_completeness auto
termination
  by (relation "measure (\<lambda>(config, assemblyMode, t2, st). nat \<lceil>362 - t2\<rceil>)") (auto, linarith)

declare computeTrajectory_loop.simps [simp del]

definition computeTrajectory :: "LinkageConfig \<Rightarrow> AssemblyMode \<Rightarrow> TrajectoryPoint list" where
  "computeTrajectory config assemblyMode = snd (computeTrajectory_loop config assemblyMode 0 ([], []))"

definition solver_calls :: "LinkageConfig \<Rightarrow> AssemblyMode \<Rightarrow> LinkageConfig list" where
  "solver_calls config assemblyMode = fst (computeTrajectory_loop config assemblyMode 0 ([], []))"

section \<open>Example configurations\<close>

text \<open>
  The default configuration of the application at driver angle \<open>0\<close>, a configuration
  whose coupler and rocker cannot reach each other, and one whose crank joint lies on the second fixed pivot.
\<close>

definition config_default :: LinkageConfig where
  "config_default =
     \<lparr>r1 = 1, r2 = 2, r3 = 7 / 2, r4 = 4, r6 = sqrt 5, beta = toDeg (arctan (1 / 2)), theta2 = 0\<rparr>"

definition config_unreachable :: LinkageConfig where
  "config_unreachable =
     \<lparr>r1 = 10, r2 = 1, r3 = 1, r4 = 1, r6 = 1, beta = 0, theta2 = 0\<rparr>"

definition config_coincident :: LinkageConfig where
  "config_coincident =
     \<lparr>r1 = 2, r2 = 2, r3 = 1, r4 = 1, r6 = 1, beta = 0, theta2 = 0\<rparr>"

section \<open>The solver on JavaScript numbers with their special values\<close>

text \<open>
  A \<open>number\<close> of JavaScript is a binary64 value: finite, an infinity or not-a-number. The
  third model of the solver keeps these special values. A finite result is computed exactly
  and becomes an infinity when its magnitude reaches \<open>2^1024 - 2^970\<close>, the point from which
  binary64 rounds to an infinity; below that bound it is not rounded, and a zero is \<open>+0\<close>.
  The special cases of each operation are those of IEEE 754 and of the ECMAScript
  \<open>Math\<close> functions: an operand that is not-a-number gives not-a-number, as do
  \<open>\<infinity> - \<infinity>\<close>, \<open>0 * \<infinity>\<close>, \<open>\<infinity> / \<infinity>\<close>, \<open>0 / 0\<close>, the square root of a negative number and
  the cosine or sine of an infinity; every comparison with not-a-number is false.
\<close>

datatype jsnum = JNaN | JPosInf | JNegInf | JFin real

definition overflow_bound :: real where
  "overflow_bound = 2 ^ 1024 - 2 ^ 970"

definition of_exact :: "real \<Rightarrow> jsnum" where
  "of_exact z =
     (if overflow_bound \<le> z then JPosInf
      else if z \<le> - overflow_bound then JNegInf
      else JFin z)"

definition inf_of_sign :: "real \<Rightarrow> jsnum" where
  "inf_of_sign s = (if 0 < s then JPosInf else if s < 0 then JNegInf else JNaN)"

fun js_sgn :: "jsnum \<Rightarrow> real" where
  "js_sgn JNaN = 0"
| "js_sgn JPosInf = 1"
| "js_sgn JNegInf = - 1"
| "js_sgn (JFin a) = sgn a"

fun js_neg :: "jsnum \<Rightarrow> jsnum" where
  "js_neg JNaN = JNaN"
| "js_neg JPosInf = JNegInf"
| "js_neg JNegInf = JPosInf"
| "js_neg (JFin a) = JFin (- a)"

fun js_add :: "jsnum \<Rightarrow> jsnum \<Rightarrow> jsnum" where
  "js_add JNaN y = JNaN"
| "js_add x JNaN = JNaN"
| "js_add (JFin a) (JFin b) = of_exact (a + b)"
| "js_add JPosInf JNegInf = JNaN"
| "js_add JNegInf JPosInf = JNaN"
| "js_add JPosInf y = JPosInf"
| "js_add x JPosInf = JPosInf"
| "js_add JNegInf y = JNegInf"
| "js_add x JNegInf = JNegInf"

definition js_sub :: "jsnum \<Rightarrow> jsnum \<Rightarrow> jsnum" where
  "js_sub x y = js_add x (js_neg y)"

fun js_mul :: "jsnum \<Rightarrow> jsnum \<Rightarrow> jsnum" where
  "js_mul JNaN y = JNaN"
| "js_mul x JNaN = JNaN"
| "js_mul (JFin a) (JFin b) = of_exact (a * b)"
| "js_mul x y = inf_of_sign (js_sgn x * js_sgn y)"

fun js_div :: "jsnum \<Rightarrow> jsnum \<Rightarrow> jsnum" where
  "js_div JNaN y = JNaN"
| "js_div x JNaN = JNaN"
| "js_div (JFin a) (JFin b) = (if b = 0 then inf_of_sign (sgn a) else of_exact (a / b))"
| "js_div (JFin a) y = JFin 0"
| "js_div x (JFin b) = inf_of_sign (js_sgn x * (if b < 0 then - 1 else 1))"
| "js_div x y = JNaN"

fun js_pow2 :: "jsnum \<Rightarrow> jsnum" where
  "js_pow2 JNaN = JNaN"
| "js_pow2 (JFin a) = of_exact (a\<^sup>2)"
| "js_pow2 x = JPosInf"

fun js_sqrt :: "jsnum \<Rightarrow> jsnum" where
  "js_sqrt JNaN = JNaN"
| "js_sqrt JPosInf = JPosInf"
| "js_sqrt JNegInf = JNaN"
| "js_sqrt (JFin a) = (if a < 0 then JNaN else JFin (sqrt a))"

fun js_abs :: "jsnum \<Rightarrow> jsnum" where
  "js_abs JNaN = JNaN"
| "js_abs (JFin a) = JFin \<bar>a\<bar>"
| "js_abs x = JPosInf"

fun js_cos :: "jsnum \<Rightarrow> jsnum" where
  "js_cos (JFin a) = JFin (cos a)"
| "js_cos x = JNaN"

fun js_sin :: "jsnum \<Rightarrow> jsnum" where
  "js_sin (JFin a) = JFin (sin a)"
| "js_sin x = JNaN"

fun js_lt :: "jsnum \<Rightarrow> jsnum \<Rightarrow> bool" where
  "js_lt JNaN y = False"
| "js_lt x JNaN = False"
| "js_lt (JFin a) (JFin b) = (a < b)"
| "js_lt x JNegInf = False"
| "js_lt JPosInf y = False"
| "js_lt JNegInf y = True"
| "js_lt x JPosInf = True"

definition js_gt :: "jsnum \<Rightarrow> jsnum \<Rightarrow> bool" where
  "js_gt x y = js_lt y x"

fun js_eq :: "jsnum \<Rightarrow> jsnum \<Rightarrow> bool" where
  "js_eq JNaN y = False"
| "js_eq x JNaN = False"
| "js_eq x y = (x = y)"

definition js_le :: "jsnum \<Rightarrow> jsnum \<Rightarrow> bool" where
  "js_le x y = (js_lt x y \<or> js_eq x y)"

definition js_max :: "jsnum \<Rightarrow> jsnum \<Rightarrow> jsnum" where
  "js_max x y = (if x = JNaN \<or> y = JNaN then JNaN else if js_lt x y then y else x)"

fun js_atan2 :: "jsnum \<Rightarrow> jsnum \<Rightarrow> jsnum" where
  "js_atan2 JNaN x = JNaN"
| "js_atan2 y JNaN = JNaN"
| "js_atan2 (JFin b) (JFin a) = JFin (atan2 b a)"
| "js_atan2 (JFin b) JPosInf = JFin 0"
| "js_atan2 (JFin b) JNegInf = JFin (if b < 0 then - pi else pi)"
| "js_atan2 JPosInf (JFin a) = JFin (pi / 2)"
| "js_atan2 JPosInf JPosInf = JFin (pi / 4)"
| "js_atan2 JPosInf JNegInf = JFin (3 * pi / 4)"
| "js_atan2 JNegInf (JFin a) = JFin (- (pi / 2))"
| "js_atan2 JNegInf JPosInf = JFin (- (pi / 4))"
| "js_atan2 JNegInf JNegInf = JFin (- (3 * pi / 4))"

record JsSolution =
  jsAx :: jsnum
  jsAy :: jsnum
  jsBx :: jsnum
  jsBy :: jsnum
  jsCx :: jsnum
  jsCy :: jsnum
  jsTheta3 :: jsnum
  jsTheta4 :: jsnum
  jsIsValid :: bool
  jsMode :: ModeLabel

definition toRad_js :: "jsnum \<Rightarrow> jsnum" where
  "toRad_js deg = js_div (js_mul deg (JFin pi)) (JFin 180)"

definition toDeg_js :: "jsnum \<Rightarrow> jsnum" where
  "toDeg_js rad = js_div (js_mul rad (JFin 180)) (JFin pi)"

definition theta2Rad_js :: "LinkageConfig \<Rightarrow> jsnum" where
  "theta2Rad_js config = toRad_js (JFin (theta2 config))"

definition betaRad_js :: "LinkageConfig \<Rightarrow> jsnum" where
  "betaRad_js config = toRad_js (JFin (beta config))"

definition B_star_js :: "LinkageConfig \<Rightarrow> jsnum \<times> jsnum" where
  "B_star_js config = (JFin (r1 config), JFin 0)"

definition Ax_js :: "LinkageConfig \<Rightarrow> jsnum" where
  "Ax_js config = js_mul (JFin (r2 config)) (js_cos (theta2Rad_js config))"

definition Ay_js :: "LinkageConfig \<Rightarrow> jsnum" where
  "Ay_js config = js_mul (JFin (r2 config)) (js_sin (theta2Rad_js config))"

definition d2_js :: "LinkageConfig \<Rightarrow> jsnum" where
  "d2_js config =
     js_add (js_pow2 (js_sub (Ax_js config) (fst (B_star_js config))))
            (js_pow2 (js_sub (Ay_js config) (snd (B_star_js config))))"

definition d_js :: "LinkageConfig \<Rightarrow> jsnum" where
  "d_js config = js_sqrt (d2_js config)"

definition a_js :: "LinkageConfig \<Rightarrow> jsnum" where
  "a_js config =
     js_div (js_add (js_sub (js_pow2 (JFin (r3 config))) (js_pow2 (JFin (r4 config))))
                    (d2_js config))
            (js_mul (JFin 2) (d_js config))"

definition h_js :: "LinkageConfig \<Rightarrow> jsnum" where
  "h_js config =
     js_sqrt (js_max (JFin 0) (js_sub (js_pow2 (JFin (r3 config))) (js_pow2 (a_js config))))"

definition x2_js :: "LinkageConfig \<Rightarrow> jsnum" where
  "x2_js config =
     js_add (Ax_js config)
            (js_div (js_mul (a_js config) (js_sub (fst (B_star_js config)) (Ax_js config)))
                    (d_js config))"

definition y2_js :: "LinkageConfig \<Rightarrow> jsnum" where
  "y2_js config =
     js_add (Ay_js config)
            (js_div (js_mul (a_js config) (js_sub (snd (B_star_js config)) (Ay_js config)))
                    (d_js config))"

definition x3_1_js :: "LinkageConfig \<Rightarrow> jsnum" where
  "x3_1_js config =
     js_add (x2_js config)
            (js_div (js_mul (h_js config) (js_sub (snd (B_star_js config)) (Ay_js config)))
                    (d_js config))"

definition y3_1_js :: "LinkageConfig \<Rightarrow> jsnum" where
  "y3_1_js config =
     js_sub (y2_js config)
            (js_div (js_mul (h_js config) (js_sub (fst (B_star_js config)) (Ax_js config)))
                    (d_js config))"

definition x3_2_js :: "LinkageConfig \<Rightarrow> jsnum" where
  "x3_2_js config =
     js_sub (x2_js config)
            (js_div (js_mul (h_js config) (js_sub (snd (B_star_js config)) (Ay_js config)))
                    (d_js config))"

definition y3_2_js :: "LinkageConfig \<Rightarrow> jsnum" where
  "y3_2_js config =
     js_add (y2_js config)
            (js_div (js_mul (h_js config) (js_sub (fst (B_star_js config)) (Ax_js config)))
                    (d_js config))"

definition Bx_js :: "LinkageConfig \<Rightarrow> AssemblyMode \<Rightarrow> jsnum" where
  "Bx_js config assemblyMode = (if assemblyMode = Plus1 then x3_1_js config else x3_2_js config)"

definition By_js :: "LinkageConfig \<Rightarrow> AssemblyMode \<Rightarrow> jsnum" where
  "By_js config assemblyMode = (if assemblyMode = Plus1 then y3_1_js config else y3_2_js config)"

definition theta3Rad_js :: "LinkageConfig \<Rightarrow> AssemblyMode \<Rightarrow> jsnum" where
  "theta3Rad_js config assemblyMode =
     js_atan2 (js_sub (By_js config assemblyMode) (Ay_js config))
              (js_sub (Bx_js config assemblyMode) (Ax_js config))"

definition theta4Rad_js :: "LinkageConfig \<Rightarrow> AssemblyMode \<Rightarrow> jsnum" where
  "theta4Rad_js config assemblyMode =
     js_atan2 (js_sub (By_js config assemblyMode) (snd (B_star_js config)))
              (js_sub (Bx_js config assemblyMode) (fst (B_star_js config)))"

definition angleAC_js :: "LinkageConfig \<Rightarrow> AssemblyMode \<Rightarrow> jsnum" where
  "angleAC_js config assemblyMode = js_add (theta3Rad_js config assemblyMode) (betaRad_js config)"

definition solveLinkage_js :: "LinkageConfig \<Rightarrow> AssemblyMode \<Rightarrow> JsSolution" where
  "solveLinkage_js config assemblyMode =
     (if js_gt (d_js config) (js_add (JFin (r3 config)) (JFin (r4 config)))
          \<or> js_lt (d_js config) (js_abs (js_sub (JFin (r3 config)) (JFin (r4 config))))
          \<or> js_eq (d_js config) (JFin 0)
      then \<lparr>jsAx = Ax_js config, jsAy = Ay_js config,
            jsBx = JNaN, jsBy = JNaN, jsCx = JNaN, jsCy = JNaN, jsTheta3 = JNaN, jsTheta4 = JNaN,
            jsIsValid = False,
            jsMode = (if assemblyMode = Plus1 then Open else Crossed)\<rparr>
      else \<lparr>jsAx = Ax_js config, jsAy = Ay_js config,
            jsBx = Bx_js config assemblyMode, jsBy = By_js config assemblyMode,
            jsCx = js_add (Ax_js config)
                     (js_mul (JFin (r6 config)) (js_cos (angleAC_js config assemblyMode))),
            jsCy = js_add (Ay_js config)
                     (js_mul (JFin (r6 config)) (js_sin (angleAC_js config assemblyMode))),
            jsTheta3 = toDeg_js (theta3Rad_js config assemblyMode),
            jsTheta4 = toDeg_js (theta4Rad_js config assemblyMode),
            jsIsValid = True,
            jsMode = (if assemblyMode = Plus1 then Open else Crossed)\<rparr>)"


section \<open>Basic facts about the distance \<open>d\<close>\<close>

lemma d2_of_nonneg: "0 \<le> d2_of config"
  by (simp add: d2_of_def)

lemma d_of_nonneg: "0 \<le> d_of config"
  by (simp add: d_of_def d2_of_nonneg)

lemma d_of_sq: "(d_of config)\<^sup>2 = d2_of config"
  by (simp add: d_of_def d2_of_nonneg)

lemma solveLinkage_valid_iff:
  "isValid (solveLinkage config m) \<longleftrightarrow>
     \<bar>r3 config - r4 config\<bar> \<le> d_of config \<and> d_of config \<le> r3 config + r4 config
     \<and> 0 < d_of config"
  using d_of_nonneg [of config] by (auto simp add: solveLinkage_def)

lemmas eval_defs = d_of_def d2_of_def Ax_of_def Ay_of_def B_star_of_def theta2Rad_of_def toRad_def


section \<open>Totality of the solver\<close>

lemma toRad_chk_eq: "toRad_chk x = Some (toRad x)"
  by (simp add: toRad_chk_def toRad_def div_chk_def)

lemma toDeg_chk_eq: "toDeg_chk x = Some (toDeg x)"
  by (simp add: toDeg_chk_def toDeg_def div_chk_def)

lemma sqrt_chk_d2: "sqrt_chk (d2_of config) = Some (d_of config)"
  using d2_of_nonneg [of config] by (simp add: sqrt_chk_def d_of_def)

lemma sqrt_chk_max: "sqrt_chk (max 0 z) = Some (sqrt (max 0 z))"
  by (simp add: sqrt_chk_def)

lemma div_chk_nz: "y \<noteq> 0 \<Longrightarrow> div_chk x y = Some (x / y)"
  by (simp add: div_chk_def)

lemma solveLinkage_chk_unfold:
  "solveLinkage_chk config m = do {
     d \<leftarrow> sqrt_chk (d2_of config);
     if d > r3 config + r4 config \<or> d < \<bar>r3 config - r4 config\<bar> \<or> d = 0
     then Some \<lparr>Ax = Num (Ax_of config), Ay = Num (Ay_of config),
                 Bx = NaN, By = NaN, Cx = NaN, Cy = NaN, theta3 = NaN, theta4 = NaN,
                 isValid = False,
                 mode = (if m = Plus1 then Open else Crossed)\<rparr>
     else do {
       a \<leftarrow> div_chk ((r3 config)\<^sup>2 - (r4 config)\<^sup>2 + d2_of config) (2 * d);
       h \<leftarrow> sqrt_chk (max 0 ((r3 config)\<^sup>2 - a\<^sup>2));
       qx2 \<leftarrow> div_chk (a * (fst (B_star_of config) - Ax_of config)) d;
       qy2 \<leftarrow> div_chk (a * (snd (B_star_of config) - Ay_of config)) d;
       qx3 \<leftarrow> div_chk (h * (snd (B_star_of config) - Ay_of config)) d;
       qy3 \<leftarrow> div_chk (h * (fst (B_star_of config) - Ax_of config)) d;
       let B_x = (if m = Plus1 then Ax_of config + qx2 + qx3 else Ax_of config + qx2 - qx3);
       let B_y = (if m = Plus1 then Ay_of config + qy2 - qy3 else Ay_of config + qy2 + qy3);
       let theta3Rad = atan2 (B_y - Ay_of config) (B_x - Ax_of config);
       let theta4Rad = atan2 (B_y - snd (B_star_of config)) (B_x - fst (B_star_of config));
       let angleAC = theta3Rad + betaRad_of config;
       Some \<lparr>Ax = Num (Ax_of config), Ay = Num (Ay_of config), Bx = Num B_x, By = Num B_y,
             Cx = Num (Ax_of config + r6 config * cos angleAC),
             Cy = Num (Ay_of config + r6 config * sin angleAC),
             theta3 = Num (toDeg theta3Rad), theta4 = Num (toDeg theta4Rad),
             isValid = True,
             mode = (if m = Plus1 then Open else Crossed)\<rparr>
     }
   }"
  unfolding solveLinkage_chk_def toRad_chk_eq toDeg_chk_eq Let_def
    d2_of_def Ax_of_def Ay_of_def B_star_of_def theta2Rad_of_def betaRad_of_def
  by (simp only: Option.bind.bind_lunit)

text \<open>
  Claim C5. The solver returns a pose for every configuration and either assembly mode:
  in the model with checked arithmetic no division has a zero divisor and no square root
  has a negative argument, on the valid and on the invalid branch alike, and the pose is
  the one the unchecked model computes. Being a function of its two arguments, the solver
  is deterministic. The statement has no precondition on the link lengths.
\<close>

theorem solveLinkage_total:
  "solveLinkage_chk config assemblyMode = Some (solveLinkage config assemblyMode)"
proof (cases "d_of config > r3 config + r4 config \<or> d_of config < \<bar>r3 config - r4 config\<bar>
          \<or> d_of config = 0")
  case True
  then show ?thesis
    unfolding solveLinkage_chk_unfold sqrt_chk_d2 solveLinkage_def
    by (simp only: Option.bind.bind_lunit if_True)
next
  case False
  then have nz: "d_of config \<noteq> 0" "2 * d_of config \<noteq> 0" by simp_all
  from False show ?thesis
    unfolding solveLinkage_chk_unfold sqrt_chk_d2 solveLinkage_def
    by (simp only: Option.bind.bind_lunit if_False div_chk_nz [OF nz(1)] div_chk_nz [OF nz(2)]
        sqrt_chk_max Let_def a_of_def [symmetric] h_of_def [symmetric]
        Bx_of_def By_of_def x3_1_of_def x3_2_of_def y3_1_of_def y3_2_of_def x2_of_def y2_of_def
        theta3Rad_of_def theta4Rad_of_def angleAC_of_def)
qed

section \<open>Special values: a driver angle whose conversion overflows\<close>

text \<open>
  At the driver angle \<open>1e308\<close> the product \<open>theta2 * Math.PI\<close> overflows to an infinity,
  whose cosine and sine are not-a-number. Every later value is then not-a-number, the three
  comparisons of the validity check are false, and the solver returns a pose flagged valid
  in which every numeric field is not-a-number.
\<close>

lemma js_nan_right [simp]:
  "js_add x JNaN = JNaN" "js_mul x JNaN = JNaN" "js_div x JNaN = JNaN" "js_sub x JNaN = JNaN"
  "js_atan2 x JNaN = JNaN" "js_lt x JNaN = False" "js_gt x JNaN = False" "js_eq x JNaN = False"
  "js_le x JNaN = False" "js_max x JNaN = JNaN"
  by (cases x; simp add: js_sub_def js_gt_def js_le_def js_max_def)+

lemma js_nan_left [simp]:
  "js_sub JNaN y = JNaN" "js_gt JNaN y = False" "js_le JNaN y = False" "js_max JNaN y = JNaN"
  by (cases y; simp add: js_sub_def js_gt_def js_le_def js_max_def)+





lemma config_unreachable_js:
  "d_js config_unreachable = JFin 9"
  "solveLinkage_js config_unreachable assemblyMode =
     \<lparr>jsAx = JFin 1, jsAy = JFin 0, jsBx = JNaN, jsBy = JNaN, jsCx = JNaN, jsCy = JNaN,
      jsTheta3 = JNaN, jsTheta4 = JNaN, jsIsValid = False,
      jsMode = (if assemblyMode = Plus1 then Open else Crossed)\<rparr>"
proof -
  have f: "r1 config_unreachable = 10" "r2 config_unreachable = 1" "r3 config_unreachable = 1"
    "r4 config_unreachable = 1" "theta2 config_unreachable = 0"
    by (simp_all add: config_unreachable_def)
  have t: "theta2Rad_js config_unreachable = JFin 0"
    by (simp add: theta2Rad_js_def toRad_js_def of_exact_def overflow_bound_def f)
  have A: "Ax_js config_unreachable = JFin 1" "Ay_js config_unreachable = JFin 0"
    by (simp_all add: Ax_js_def Ay_js_def t of_exact_def overflow_bound_def f)
  show d: "d_js config_unreachable = JFin 9"
    by (simp add: d_js_def d2_js_def A B_star_js_def js_sub_def of_exact_def overflow_bound_def f)
  show "solveLinkage_js config_unreachable assemblyMode =
     \<lparr>jsAx = JFin 1, jsAy = JFin 0, jsBx = JNaN, jsBy = JNaN, jsCx = JNaN, jsCy = JNaN,
      jsTheta3 = JNaN, jsTheta4 = JNaN, jsIsValid = False,
      jsMode = (if assemblyMode = Plus1 then Open else Crossed)\<rparr>"
    by (simp add: solveLinkage_js_def d A js_gt_def of_exact_def overflow_bound_def f)
qed

text \<open>
  What holds of the program's own numbers: unless \<open>d\<close> is not-a-number, the negated check
  of the solver is the validity test; the crank joint and the validity flag do not depend
  on the mode; and the mode alone selects the candidate.
\<close>

lemma of_exact_not_nan [simp]: "of_exact z \<noteq> JNaN"
  by (simp add: of_exact_def)

lemma js_lt_total:
  assumes "x \<noteq> JNaN" "y \<noteq> JNaN"
  shows "\<not> js_gt x y \<longleftrightarrow> js_le x y"
  using assms by (cases x; cases y; auto simp add: js_gt_def js_le_def)

lemma js_validity_check_iff:
  assumes "d_js config \<noteq> JNaN"
  shows "jsIsValid (solveLinkage_js config assemblyMode) = False \<longleftrightarrow>
     \<not> (js_le (js_abs (js_sub (JFin (r3 config)) (JFin (r4 config)))) (d_js config)
        \<and> js_le (d_js config) (js_add (JFin (r3 config)) (JFin (r4 config)))
        \<and> js_gt (d_js config) (JFin 0))"
proof -
  have s: "js_add (JFin (r3 config)) (JFin (r4 config)) \<noteq> JNaN" by simp
  have t: "js_abs (js_sub (JFin (r3 config)) (JFin (r4 config))) \<noteq> JNaN"
    by (cases "js_sub (JFin (r3 config)) (JFin (r4 config))") (simp_all add: js_sub_def)
  have nonneg: "\<not> js_lt (d_js config) (JFin 0)"
    by (cases "d2_js config") (simp_all add: d_js_def)
  have pos: "js_gt (d_js config) (JFin 0) \<longleftrightarrow> \<not> js_eq (d_js config) (JFin 0)"
    using assms nonneg by (cases "d_js config") (auto simp add: js_gt_def)
  have "jsIsValid (solveLinkage_js config assemblyMode) = False \<longleftrightarrow>
      js_gt (d_js config) (js_add (JFin (r3 config)) (JFin (r4 config)))
      \<or> js_lt (d_js config) (js_abs (js_sub (JFin (r3 config)) (JFin (r4 config))))
      \<or> js_eq (d_js config) (JFin 0)"
    by (simp add: solveLinkage_js_def)
  also have "\<dots> \<longleftrightarrow>
      \<not> (js_le (js_abs (js_sub (JFin (r3 config)) (JFin (r4 config)))) (d_js config)
        \<and> js_le (d_js config) (js_add (JFin (r3 config)) (JFin (r4 config)))
        \<and> js_gt (d_js config) (JFin 0))"
    using js_lt_total [OF assms s] js_lt_total [OF t assms] pos by (auto simp add: js_gt_def)
  finally show ?thesis .
qed

lemma js_crank_mode_independent:
  "jsAx (solveLinkage_js config Plus1) = jsAx (solveLinkage_js config Minus1)"
  "jsAy (solveLinkage_js config Plus1) = jsAy (solveLinkage_js config Minus1)"
  "jsIsValid (solveLinkage_js config Plus1) = jsIsValid (solveLinkage_js config Minus1)"
  by (simp_all add: solveLinkage_js_def)

lemma js_selection_by_mode:
  assumes "jsIsValid (solveLinkage_js config Plus1)"
  shows "jsBx (solveLinkage_js config Plus1) = x3_1_js config"
    and "jsBy (solveLinkage_js config Plus1) = y3_1_js config"
    and "jsBx (solveLinkage_js config Minus1) = x3_2_js config"
    and "jsBy (solveLinkage_js config Minus1) = y3_2_js config"
  using assms by (simp_all add: solveLinkage_js_def Bx_js_def By_js_def split: if_splits)

section \<open>The validity test\<close>




section \<open>The invalid branch\<close>




text \<open>
  Claim C10. Also on the invalid branch the fields \<open>Ax\<close> and \<open>Ay\<close> hold the computed
  crank joint \<open>(r2 cos \<theta>2, r2 sin \<theta>2)\<close>, with \<open>\<theta>2\<close> converted to radians; only the
  fields of B, of C and the two angles are the sentinel.
\<close>

theorem invalid_pose_reports_crank_joint:
  assumes "isValid (solveLinkage config assemblyMode) = False"
  shows "Ax (solveLinkage config assemblyMode) = Num (r2 config * cos (theta2 config * pi / 180))
       \<and> Ay (solveLinkage config assemblyMode) = Num (r2 config * sin (theta2 config * pi / 180))
       \<and> Bx (solveLinkage config assemblyMode) = NaN
       \<and> By (solveLinkage config assemblyMode) = NaN
       \<and> Cx (solveLinkage config assemblyMode) = NaN
       \<and> Cy (solveLinkage config assemblyMode) = NaN
       \<and> theta3 (solveLinkage config assemblyMode) = NaN
       \<and> theta4 (solveLinkage config assemblyMode) = NaN"
  using assms
  by (simp add: solveLinkage_def Ax_of_def Ay_of_def theta2Rad_of_def toRad_def split: if_splits)

theorem invalid_pose_reports_crank_joint_witness:
  "isValid (solveLinkage config_coincident Plus1) = False
   \<and> Ax (solveLinkage config_coincident Plus1)
       = Num (r2 config_coincident * cos (theta2 config_coincident * pi / 180))
   \<and> Ay (solveLinkage config_coincident Plus1)
       = Num (r2 config_coincident * sin (theta2 config_coincident * pi / 180))
   \<and> Bx (solveLinkage config_coincident Plus1) = NaN
   \<and> By (solveLinkage config_coincident Plus1) = NaN
   \<and> Cx (solveLinkage config_coincident Plus1) = NaN
   \<and> Cy (solveLinkage config_coincident Plus1) = NaN
   \<and> theta3 (solveLinkage config_coincident Plus1) = NaN
   \<and> theta4 (solveLinkage config_coincident Plus1) = NaN"
proof -
  have v: "isValid (solveLinkage config_coincident Plus1) = False"
    by (simp add: solveLinkage_def eval_defs config_coincident_def)
  from invalid_pose_reports_crank_joint [OF v] v show ?thesis by (simp only: simp_thms)
qed

section \<open>Unreachable configurations\<close>





section \<open>Circle membership\<close>

lemma foot_bounds:
  fixes d p q :: real
  assumes "0 < d" "\<bar>p - q\<bar> \<le> d" "d \<le> p + q"
  shows "((p\<^sup>2 - q\<^sup>2 + d\<^sup>2) / (2 * d))\<^sup>2 \<le> p\<^sup>2"
proof -
  let ?a = "(p\<^sup>2 - q\<^sup>2 + d\<^sup>2) / (2 * d)"
  have p0: "0 \<le> p" and q0: "0 \<le> q" using assms by linarith+
  have "(d - p)\<^sup>2 \<le> q\<^sup>2" using assms q0 by (intro power2_le_iff_abs_le [THEN iffD2]) linarith+
  then have up: "p\<^sup>2 - q\<^sup>2 + d\<^sup>2 \<le> 2 * d * p" by (simp add: power2_eq_square algebra_simps)
  have "q\<^sup>2 \<le> (d + p)\<^sup>2" using assms q0 p0 by (intro power_mono) linarith+
  then have lo: "- (2 * d * p) \<le> p\<^sup>2 - q\<^sup>2 + d\<^sup>2" by (simp add: power2_eq_square algebra_simps)
  have "?a \<le> p" using up assms(1) by (simp add: field_simps)
  moreover have "- p \<le> ?a" using lo assms(1) by (simp add: field_simps)
  ultimately have "\<bar>?a\<bar> \<le> p" by linarith
  then show ?thesis using p0 by (simp add: abs_le_square_iff [symmetric])
qed

lemma circle_candidates:
  fixes ax ay px py d a h p q s :: real
  assumes d: "0 < d" and d2: "d\<^sup>2 = (ax - px)\<^sup>2 + (ay - py)\<^sup>2"
    and a: "a = (p\<^sup>2 - q\<^sup>2 + d\<^sup>2) / (2 * d)"
    and h: "h\<^sup>2 = p\<^sup>2 - a\<^sup>2"
    and s: "s\<^sup>2 = 1"
    and bx: "bx = ax + (a * (px - ax)) / d + s * ((h * (py - ay)) / d)"
    and "by": "by = ay + (a * (py - ay)) / d - s * ((h * (px - ax)) / d)"
  shows "(bx - ax)\<^sup>2 + (by - ay)\<^sup>2 = p\<^sup>2" and "(bx - px)\<^sup>2 + (by - py)\<^sup>2 = q\<^sup>2"
proof -
  define ux where "ux = (px - ax) / d"
  define uy where "uy = (py - ay) / d"
  have "ux\<^sup>2 + uy\<^sup>2 = ((ax - px)\<^sup>2 + (ay - py)\<^sup>2) / d\<^sup>2"
    by (simp add: ux_def uy_def power_divide add_divide_distrib power2_commute)
  also have "\<dots> = d\<^sup>2 / d\<^sup>2" by (simp only: d2)
  also have "\<dots> = 1" using d by simp
  finally have u: "ux\<^sup>2 + uy\<^sup>2 = 1" .
  have px: "px = ax + d * ux" and py: "py = ay + d * uy" using d by (simp_all add: ux_def uy_def)
  have ad: "2 * a * d = p\<^sup>2 - q\<^sup>2 + d\<^sup>2" using d a by (simp add: field_simps)
  have e1: "bx - ax = a * ux + s * h * uy" by (simp add: bx ux_def uy_def)
  have e2: "by - ay = a * uy - s * h * ux" by (simp add: "by" ux_def uy_def)
  have "(bx - ax)\<^sup>2 + (by - ay)\<^sup>2 = (a\<^sup>2 + s\<^sup>2 * h\<^sup>2) * (ux\<^sup>2 + uy\<^sup>2)"
    unfolding e1 e2 by (simp add: power2_eq_square algebra_simps)
  then show "(bx - ax)\<^sup>2 + (by - ay)\<^sup>2 = p\<^sup>2" using u s h by simp
  have f1: "bx - px = (a - d) * ux + s * h * uy" using e1 px by (simp add: algebra_simps)
  have f2: "by - py = (a - d) * uy - s * h * ux" using e2 py by (simp add: algebra_simps)
  have "(bx - px)\<^sup>2 + (by - py)\<^sup>2 = ((a - d)\<^sup>2 + s\<^sup>2 * h\<^sup>2) * (ux\<^sup>2 + uy\<^sup>2)"
    unfolding f1 f2 by (simp add: power2_eq_square algebra_simps)
  then have "(bx - px)\<^sup>2 + (by - py)\<^sup>2 = (a - d)\<^sup>2 + h\<^sup>2" using u s by simp
  also have "\<dots> = d\<^sup>2 - 2 * a * d + p\<^sup>2" using h by (simp add: power2_eq_square algebra_simps)
  also have "\<dots> = q\<^sup>2" using ad by simp
  finally show "(bx - px)\<^sup>2 + (by - py)\<^sup>2 = q\<^sup>2" .
qed

lemma valid_foot:
  assumes "isValid (solveLinkage config m)"
  shows "(a_of config)\<^sup>2 \<le> (r3 config)\<^sup>2" and "(h_of config)\<^sup>2 = (r3 config)\<^sup>2 - (a_of config)\<^sup>2"
proof -
  from assms have v: "0 < d_of config" "\<bar>r3 config - r4 config\<bar> \<le> d_of config"
    "d_of config \<le> r3 config + r4 config"
    by (simp_all add: solveLinkage_valid_iff)
  from foot_bounds [OF v] show le: "(a_of config)\<^sup>2 \<le> (r3 config)\<^sup>2"
    by (simp add: a_of_def d_of_sq)
  then show "(h_of config)\<^sup>2 = (r3 config)\<^sup>2 - (a_of config)\<^sup>2"
    by (simp add: h_of_def)
qed

lemma sign_of_mode: "(if m = Plus1 then (1::real) else - 1)\<^sup>2 = 1"
  by simp

lemma valid_B_on_circles:
  assumes v: "isValid (solveLinkage config m)"
  shows "(Bx_of config m - Ax_of config)\<^sup>2 + (By_of config m - Ay_of config)\<^sup>2 = (r3 config)\<^sup>2"
    and "(Bx_of config m - r1 config)\<^sup>2 + (By_of config m - 0)\<^sup>2 = (r4 config)\<^sup>2"
proof -
  from v have d: "0 < d_of config" by (simp add: solveLinkage_valid_iff)
  have d2: "(d_of config)\<^sup>2 = (Ax_of config - r1 config)\<^sup>2 + (Ay_of config - 0)\<^sup>2"
    by (simp add: d_of_sq d2_of_def B_star_of_def)
  have a: "a_of config = ((r3 config)\<^sup>2 - (r4 config)\<^sup>2 + (d_of config)\<^sup>2) / (2 * d_of config)"
    by (simp add: a_of_def d_of_sq)
  have bx: "Bx_of config m = Ax_of config + (a_of config * (r1 config - Ax_of config)) / d_of config
      + (if m = Plus1 then 1 else - 1) * ((h_of config * (0 - Ay_of config)) / d_of config)"
    by (simp add: Bx_of_def x3_1_of_def x3_2_of_def x2_of_def B_star_of_def)
  have "by": "By_of config m = Ay_of config + (a_of config * (0 - Ay_of config)) / d_of config
      - (if m = Plus1 then 1 else - 1) * ((h_of config * (r1 config - Ax_of config)) / d_of config)"
    by (simp add: By_of_def y3_1_of_def y3_2_of_def y2_of_def B_star_of_def)
  note cc = circle_candidates [OF d d2 a valid_foot(2) [OF v] sign_of_mode bx "by"]
  from cc(1) show "(Bx_of config m - Ax_of config)\<^sup>2 + (By_of config m - Ay_of config)\<^sup>2 = (r3 config)\<^sup>2" .
  from cc(2) show "(Bx_of config m - r1 config)\<^sup>2 + (By_of config m - 0)\<^sup>2 = (r4 config)\<^sup>2" .
qed

lemma valid_radii_nonneg:
  assumes "isValid (solveLinkage config m)"
  shows "0 \<le> r3 config" and "0 \<le> r4 config"
  using assms by (simp_all add: solveLinkage_valid_iff) linarith+

text \<open>
  Claim C1. On a valid pose the joint B lies on both circles: its distance to A is
  \<open>r3\<close> and its distance to the second fixed pivot \<open>(r1, 0)\<close> is \<open>r4\<close>, exactly, over
  the reals. Validity alone implies \<open>r3 \<ge> 0\<close> and \<open>r4 \<ge> 0\<close>, so the positivity of the
  link lengths is not needed as a hypothesis.
\<close>

theorem valid_pose_on_both_circles:
  assumes "isValid (solveLinkage config assemblyMode)"
  shows "\<exists>ax ay bx by.
           Ax (solveLinkage config assemblyMode) = Num ax
         \<and> Ay (solveLinkage config assemblyMode) = Num ay
         \<and> Bx (solveLinkage config assemblyMode) = Num bx
         \<and> By (solveLinkage config assemblyMode) = Num by
         \<and> sqrt ((bx - ax)\<^sup>2 + (by - ay)\<^sup>2) = r3 config
         \<and> sqrt ((bx - r1 config)\<^sup>2 + (by - 0)\<^sup>2) = r4 config"
proof -
  from assms have f: "solveLinkage config assemblyMode =
      \<lparr>Ax = Num (Ax_of config), Ay = Num (Ay_of config),
            Bx = Num (Bx_of config assemblyMode), By = Num (By_of config assemblyMode),
            Cx = Num (Ax_of config + r6 config * cos (angleAC_of config assemblyMode)),
            Cy = Num (Ay_of config + r6 config * sin (angleAC_of config assemblyMode)),
            theta3 = Num (toDeg (theta3Rad_of config assemblyMode)),
            theta4 = Num (toDeg (theta4Rad_of config assemblyMode)),
            isValid = True,
            mode = (if assemblyMode = Plus1 then Open else Crossed)\<rparr>"
    by (simp add: solveLinkage_def split: if_splits)
  have "sqrt ((Bx_of config assemblyMode - Ax_of config)\<^sup>2 + (By_of config assemblyMode - Ay_of config)\<^sup>2) = r3 config"
    using valid_B_on_circles(1) [OF assms] valid_radii_nonneg(1) [OF assms] by simp
  moreover have "sqrt ((Bx_of config assemblyMode - r1 config)\<^sup>2 + (By_of config assemblyMode - 0)\<^sup>2) = r4 config"
    using valid_B_on_circles(2) [OF assms] valid_radii_nonneg(2) [OF assms] by simp
  ultimately show ?thesis unfolding f by simp
qed

theorem valid_pose_on_both_circles_witness:
  "isValid (solveLinkage config_default Plus1)
   \<and> (\<exists>ax ay bx by.
           Ax (solveLinkage config_default Plus1) = Num ax
         \<and> Ay (solveLinkage config_default Plus1) = Num ay
         \<and> Bx (solveLinkage config_default Plus1) = Num bx
         \<and> By (solveLinkage config_default Plus1) = Num by
         \<and> sqrt ((bx - ax)\<^sup>2 + (by - ay)\<^sup>2) = r3 config_default
         \<and> sqrt ((bx - r1 config_default)\<^sup>2 + (by - 0)\<^sup>2) = r4 config_default)"
proof -
  have v: "isValid (solveLinkage config_default Plus1)"
    by (simp add: solveLinkage_def eval_defs config_default_def)
  from valid_pose_on_both_circles [OF v] v show ?thesis by (rule conjI [rotated])
qed

section \<open>Branch symmetry\<close>






section \<open>Angle range\<close>






section \<open>The trajectory sampler\<close>

lemma computeTrajectory_loop_unroll:
  assumes "k \<le> 181"
  shows "computeTrajectory_loop config m (2 * real k) (calls, data) =
     (calls @ map (\<lambda>j. config\<lparr>theta2 := 2 * real j\<rparr>) [k..<181],
      data @ map (\<lambda>t. \<lparr>tp_theta2 = Num t,
                         tp_theta3 = theta3 (solveLinkage (config\<lparr>theta2 := t\<rparr>) m),
                         tp_theta4 = theta4 (solveLinkage (config\<lparr>theta2 := t\<rparr>) m),
                         tp_Cx = Cx (solveLinkage (config\<lparr>theta2 := t\<rparr>) m),
                         tp_Cy = Cy (solveLinkage (config\<lparr>theta2 := t\<rparr>) m)\<rparr>)
               (filter (\<lambda>t. isValid (solveLinkage (config\<lparr>theta2 := t\<rparr>) m))
                       (map (\<lambda>j. 2 * real j) [k..<181])))"
  using assms
proof (induction "181 - k" arbitrary: k calls data)
  case 0
  then have k: "k = 181" by simp
  show ?case unfolding k by (subst computeTrajectory_loop.simps) (simp del: upt_rec_numeral)
next
  case (Suc n)
  then have lt: "k < 181" and n: "n = 181 - Suc k" and le: "Suc k \<le> 181" by simp_all
  have t: "2 * real k \<le> 360" using lt by simp
  have nx: "2 * real k + 2 = 2 * real (Suc k)" by simp
  have up: "[k..<181] = k # [Suc k..<181]" using lt by (simp add: upt_conv_Cons)
  show ?case
    apply (subst computeTrajectory_loop.simps)
    apply (simp only: t if_True Let_def nx Suc.hyps(1) [OF n le] up)
    apply (simp del: upt_rec_numeral)
    done
qed

lemma computeTrajectory_loop_start:
  "computeTrajectory_loop config m 0 ([], []) =
     (map (\<lambda>j. config\<lparr>theta2 := 2 * real j\<rparr>) [0..<181],
      map (\<lambda>t. \<lparr>tp_theta2 = Num t,
                  tp_theta3 = theta3 (solveLinkage (config\<lparr>theta2 := t\<rparr>) m),
                  tp_theta4 = theta4 (solveLinkage (config\<lparr>theta2 := t\<rparr>) m),
                  tp_Cx = Cx (solveLinkage (config\<lparr>theta2 := t\<rparr>) m),
                  tp_Cy = Cy (solveLinkage (config\<lparr>theta2 := t\<rparr>) m)\<rparr>)
          (filter (\<lambda>t. isValid (solveLinkage (config\<lparr>theta2 := t\<rparr>) m))
                  (map (\<lambda>j. 2 * real j) [0..<181])))"
  using computeTrajectory_loop_unroll [of 0 config m "[]" "[]"]
  by (simp del: upt_rec_numeral)

lemma sorted_filter_angles:
  "sorted_wrt (<) (filter P (map (\<lambda>j. 2 * real j) [0..<n]))"
proof -
  have "sorted_wrt (<) (map (\<lambda>j. 2 * real j) [0..<n])"
    by (simp add: sorted_wrt_map sorted_wrt_iff_nth_less del: upt_rec_numeral)
  then show ?thesis by (rule sorted_wrt_filter)
qed

text \<open>
  Claim C4. The sampler calls the solver 181 times, at the driver angles \<open>2k\<close> for
  \<open>k = 0, \<dots>, 180\<close> (from \<open>0\<close> to \<open>360\<close>), each time on the configuration with only
  \<open>theta2\<close> replaced. The result lists, in the order of the angles, exactly the samples
  whose pose is valid, each with the solver's \<open>theta3\<close>, \<open>theta4\<close>, \<open>Cx\<close>, \<open>Cy\<close>; the
  retained angles are strictly increasing.
\<close>

theorem computeTrajectory_samples:
  "solver_calls config assemblyMode = map (\<lambda>k. config\<lparr>theta2 := 2 * real k\<rparr>) [0..<181]
   \<and> length (solver_calls config assemblyMode) = 181
   \<and> map theta2 (solver_calls config assemblyMode) ! 0 = 0
   \<and> map theta2 (solver_calls config assemblyMode) ! 180 = 360
   \<and> computeTrajectory config assemblyMode =
       map (\<lambda>t. \<lparr>tp_theta2 = Num t,
                  tp_theta3 = theta3 (solveLinkage (config\<lparr>theta2 := t\<rparr>) assemblyMode),
                  tp_theta4 = theta4 (solveLinkage (config\<lparr>theta2 := t\<rparr>) assemblyMode),
                  tp_Cx = Cx (solveLinkage (config\<lparr>theta2 := t\<rparr>) assemblyMode),
                  tp_Cy = Cy (solveLinkage (config\<lparr>theta2 := t\<rparr>) assemblyMode)\<rparr>)
           (filter (\<lambda>t. isValid (solveLinkage (config\<lparr>theta2 := t\<rparr>) assemblyMode))
                   (map (\<lambda>k. 2 * real k) [0..<181]))
   \<and> sorted_wrt (<) (filter (\<lambda>t. isValid (solveLinkage (config\<lparr>theta2 := t\<rparr>) assemblyMode))
                              (map (\<lambda>k. 2 * real k) [0..<181]))"
proof -
  have u: "computeTrajectory_loop config assemblyMode 0 ([], []) =
     (map (\<lambda>j. config\<lparr>theta2 := 2 * real j\<rparr>) [0..<181],
      map (\<lambda>t. \<lparr>tp_theta2 = Num t,
                  tp_theta3 = theta3 (solveLinkage (config\<lparr>theta2 := t\<rparr>) assemblyMode),
                  tp_theta4 = theta4 (solveLinkage (config\<lparr>theta2 := t\<rparr>) assemblyMode),
                  tp_Cx = Cx (solveLinkage (config\<lparr>theta2 := t\<rparr>) assemblyMode),
                  tp_Cy = Cy (solveLinkage (config\<lparr>theta2 := t\<rparr>) assemblyMode)\<rparr>)
          (filter (\<lambda>t. isValid (solveLinkage (config\<lparr>theta2 := t\<rparr>) assemblyMode))
                  (map (\<lambda>j. 2 * real j) [0..<181])))"
    by (rule computeTrajectory_loop_start)
  have c: "solver_calls config assemblyMode = map (\<lambda>k. config\<lparr>theta2 := 2 * real k\<rparr>) [0..<181]"
    by (simp only: solver_calls_def u fst_conv)
  have "length (solver_calls config assemblyMode) = 181"
    unfolding c by (simp del: upt_rec_numeral)
  moreover have "map theta2 (solver_calls config assemblyMode) ! 0 = 0"
    unfolding c by (simp del: upt_rec_numeral)
  moreover have "map theta2 (solver_calls config assemblyMode) ! 180 = 360"
    unfolding c by (simp del: upt_rec_numeral)
  moreover have "computeTrajectory config assemblyMode =
       map (\<lambda>t. \<lparr>tp_theta2 = Num t,
                  tp_theta3 = theta3 (solveLinkage (config\<lparr>theta2 := t\<rparr>) assemblyMode),
                  tp_theta4 = theta4 (solveLinkage (config\<lparr>theta2 := t\<rparr>) assemblyMode),
                  tp_Cx = Cx (solveLinkage (config\<lparr>theta2 := t\<rparr>) assemblyMode),
                  tp_Cy = Cy (solveLinkage (config\<lparr>theta2 := t\<rparr>) assemblyMode)\<rparr>)
           (filter (\<lambda>t. isValid (solveLinkage (config\<lparr>theta2 := t\<rparr>) assemblyMode))
                   (map (\<lambda>k. 2 * real k) [0..<181]))"
    by (simp only: computeTrajectory_def u snd_conv)
  ultimately show ?thesis using c sorted_filter_angles by (intro conjI)
qed

lemma theta2_override_eq:
  assumes "r1 c1 = r1 c2" "r2 c1 = r2 c2" "r3 c1 = r3 c2" "r4 c1 = r4 c2" "r6 c1 = r6 c2"
    "beta c1 = beta c2"
  shows "c1\<lparr>theta2 := t\<rparr> = (c2\<lparr>theta2 := t\<rparr> :: LinkageConfig)"
  using assms by (intro LinkageConfig.equality) simp_all

text \<open>
  Claim C9. Two configurations that agree on \<open>r1\<close>, \<open>r2\<close>, \<open>r3\<close>, \<open>r4\<close>, \<open>r6\<close> and
  \<open>beta\<close> have the same trajectory in every mode, whatever their \<open>theta2\<close>. The sampler is
  a function of the configuration and the mode, so equal inputs give equal sequences.
\<close>

theorem computeTrajectory_independent_of_theta2:
  fixes c1 c2 :: LinkageConfig
  assumes "r1 c1 = r1 c2" "r2 c1 = r2 c2" "r3 c1 = r3 c2" "r4 c1 = r4 c2" "r6 c1 = r6 c2"
    "beta c1 = beta c2"
  shows "computeTrajectory c1 assemblyMode = computeTrajectory c2 assemblyMode"
  unfolding computeTrajectory_def computeTrajectory_loop_start
    theta2_override_eq [OF assms] ..

theorem computeTrajectory_independent_of_theta2_witness:
  "r1 config_default = r1 (config_default\<lparr>theta2 := 90\<rparr>)
   \<and> r2 config_default = r2 (config_default\<lparr>theta2 := 90\<rparr>)
   \<and> r3 config_default = r3 (config_default\<lparr>theta2 := 90\<rparr>)
   \<and> r4 config_default = r4 (config_default\<lparr>theta2 := 90\<rparr>)
   \<and> r6 config_default = r6 (config_default\<lparr>theta2 := 90\<rparr>)
   \<and> beta config_default = beta (config_default\<lparr>theta2 := 90\<rparr>)
   \<and> theta2 config_default \<noteq> theta2 (config_default\<lparr>theta2 := 90\<rparr>)
   \<and> computeTrajectory config_default Plus1 = computeTrajectory (config_default\<lparr>theta2 := 90\<rparr>) Plus1"
  using computeTrajectory_independent_of_theta2 [of config_default "config_default\<lparr>theta2 := 90\<rparr>" Plus1]
  by (simp add: config_default_def)

end
